theory Spec2Isabelle
  imports Complex_Main
begin

section \<open>StackedESN: a shallow embedding of echotorch/nn/StackedESN.py\<close>

text \<open>
  The module builds a stack of reservoir cells (\<open>ESNCell\<close>) followed by one ridge-regression
  readout (\<open>RRCell\<close>). Both collaborators live in other files; the stack only constructs them
  and calls their methods. A raised Python exception is the left summand of a result.
\<close>

subsection \<open>Python values and errors\<close>

datatype py_error = IndexError | AttributeError string

definition bind_err :: "py_error + 'a \<Rightarrow> ('a \<Rightarrow> py_error + 'b) \<Rightarrow> py_error + 'b" where
  "bind_err r f = (case r of Inl e \<Rightarrow> Inl e | Inr v \<Rightarrow> f v)"

text \<open>\<open>xs[n]\<close> on a Python list with \<open>n \<ge> 0\<close>: out of range raises IndexError.\<close>

definition list_index :: "'a list \<Rightarrow> nat \<Rightarrow> py_error + 'a" where
  "list_index xs n = (if n < length xs then Inr (xs ! n) else Inl IndexError)"

text \<open>
  A \<open>torch.Tensor\<close>: its shape and its elements in row-major order. \<open>t[n]\<close> selects along the
  leading dimension and raises IndexError out of range (and on a 0-dimensional tensor).
\<close>

datatype tensor = Tensor (shape: "nat list") (elems: "real list")

definition ndim :: "tensor \<Rightarrow> nat" where
  "ndim t = length (shape t)"

definition tensor_slice :: "tensor \<Rightarrow> nat \<Rightarrow> tensor" where
  "tensor_slice t n =
     Tensor (tl (shape t))
       (take (prod_list (tl (shape t))) (drop (n * prod_list (tl (shape t))) (elems t)))"

definition tensor_index :: "tensor \<Rightarrow> nat \<Rightarrow> py_error + tensor" where
  "tensor_index t n =
     (case shape t of
        [] \<Rightarrow> Inl IndexError
      | d # ds \<Rightarrow> if n < d then Inr (tensor_slice t n) else Inl IndexError)"

text \<open>
  A scalar hyperparameter is either a Python \<open>list\<close> (\<open>type(p) is list\<close>) or any other value,
  which is handed on as it is. A matrix hyperparameter is \<open>None\<close>, a \<open>torch.Tensor\<close>
  (\<open>type(p) is torch.Tensor\<close>), or an object of any other type.
\<close>

datatype 'a scalar_param = Single 'a | PyList "'a list"

datatype matrix_param = PyNone | PyTensor tensor | PyOther

subsection \<open>The collaborators\<close>

text \<open>
  \<open>ESNCell\<close> is defined outside this file. The record keeps the seventeen positional arguments
  of the constructor call at lines 114-117, in call order.
\<close>

record 'f esn_cell =
  cell_input_dim :: int
  cell_hidden_dim :: int
  cell_spectral_radius :: real
  cell_bias_scaling :: real
  cell_input_scaling :: real
  cell_w :: "tensor option"
  cell_w_in :: "tensor option"
  cell_w_bias :: "tensor option"
  cell_w_fdb :: "tensor option"
  cell_sparsity :: "real option"
  cell_input_set :: "real list"
  cell_w_sparsity :: "real option"
  cell_nonlin_func :: 'f
  cell_feedbacks :: bool
  cell_feedbacks_dim :: int
  cell_wfdb_sparsity :: "real option"
  cell_normalize_feedbacks :: bool

definition ESNCell ::
  "int \<Rightarrow> int \<Rightarrow> real \<Rightarrow> real \<Rightarrow> real \<Rightarrow> tensor option \<Rightarrow> tensor option \<Rightarrow> tensor option \<Rightarrow>
   tensor option \<Rightarrow> real option \<Rightarrow> real list \<Rightarrow> real option \<Rightarrow> 'f \<Rightarrow> bool \<Rightarrow> int \<Rightarrow>
   real option \<Rightarrow> bool \<Rightarrow> 'f esn_cell" where
  "ESNCell a1 a2 a3 a4 a5 a6 a7 a8 a9 a10 a11 a12 a13 a14 a15 a16 a17 =
     \<lparr>cell_input_dim = a1, cell_hidden_dim = a2, cell_spectral_radius = a3,
      cell_bias_scaling = a4, cell_input_scaling = a5, cell_w = a6, cell_w_in = a7,
      cell_w_bias = a8, cell_w_fdb = a9, cell_sparsity = a10, cell_input_set = a11,
      cell_w_sparsity = a12, cell_nonlin_func = a13, cell_feedbacks = a14,
      cell_feedbacks_dim = a15, cell_wfdb_sparsity = a16, cell_normalize_feedbacks = a17\<rparr>"

text \<open>
  Modelled from the spec: \<open>RRCell\<close> (echotorch/nn/RRCell.py, the ReadoutUnit of the spec) is
  not part of this file. Its constructor takes (input width, output width, ridge parameter,
  feedback enabled, bias enabled, solve method); it owns accumulated regression statistics,
  created empty, and a weight matrix that is None until finalize succeeds. The statistics are
  kept as the list of batches incorporated so far. As a \<open>torch.nn.Module\<close> it starts in
  training mode.
\<close>

record rrcell =
  rr_input_dim :: int
  rr_output_dim :: int
  rr_ridge_param :: real
  rr_feedbacks :: bool
  rr_with_bias :: bool
  rr_learning_algo :: string
  rr_stats :: "(tensor \<times> tensor) list"
  w_out :: "tensor option"
  rr_training :: bool

definition RRCell :: "int \<Rightarrow> int \<Rightarrow> real \<Rightarrow> bool \<Rightarrow> bool \<Rightarrow> string \<Rightarrow> rrcell" where
  "RRCell i_dim o_dim ridge fb bias algo =
     \<lparr>rr_input_dim = i_dim, rr_output_dim = o_dim, rr_ridge_param = ridge, rr_feedbacks = fb,
      rr_with_bias = bias, rr_learning_algo = algo, rr_stats = [], w_out = None,
      rr_training = True\<rparr>"

text \<open>
  Modelled from the spec: \<open>RRCell.reset\<close> is not part of this file. The spec's
  \<open>ReadoutUnit.reset()\<close> clears accumulated statistics, discards any previously finalized
  weights, and returns to the TRAIN phase.
\<close>

definition rr_reset :: "rrcell \<Rightarrow> rrcell" where
  "rr_reset r = r\<lparr>rr_stats := [], w_out := None, rr_training := True\<rparr>"

subsection \<open>The constructor\<close>

text \<open>The arguments of \<open>StackedESN.__init__\<close> (lines 43-46), under the source's names.\<close>

record 'f init_args =
  input_dim :: int
  hidden_dim :: "int list"
  output_dim :: int
  spectral_radius :: "real scalar_param"
  bias_scaling :: "real scalar_param"
  input_scaling :: "real scalar_param"
  w :: matrix_param
  w_in :: matrix_param
  w_bias :: matrix_param
  w_fdb :: matrix_param
  sparsity :: "real option"
  input_set :: "real list"
  w_sparsity :: "real option"
  nonlin_func :: 'f
  learning_algo :: string
  ridge_param :: real
  create_cell :: bool
  feedbacks :: bool
  with_bias :: bool
  wfdb_sparsity :: "real option"
  normalize_feedbacks :: bool

text \<open>The defaults of the signature; \<open>act\<close> stands for \<open>torch.tanh\<close>.\<close>

definition default_args :: "'f \<Rightarrow> int \<Rightarrow> int list \<Rightarrow> int \<Rightarrow> 'f init_args" where
  "default_args act i_dim h_dim o_dim =
     \<lparr>input_dim = i_dim, hidden_dim = h_dim, output_dim = o_dim,
      spectral_radius = Single 0.9, bias_scaling = Single 0, input_scaling = Single 1.0,
      w = PyNone, w_in = PyNone, w_bias = PyNone, w_fdb = PyNone, sparsity = None,
      input_set = [1.0, -1.0], w_sparsity = None, nonlin_func = act, learning_algo = ''inv'',
      ridge_param = 0.0, create_cell = True, feedbacks = False, with_bias = True,
      wfdb_sparsity = None, normalize_feedbacks = False\<rparr>"

text \<open>
  The instance attributes that \<open>nn.Module.__init__\<close> and \<open>__init__\<close> assign;
  \<open>output_layer\<close> is \<open>self.output\<close>.
\<close>

record 'f stacked_esn =
  training :: bool
  n_layers :: nat
  esn_layers :: "'f esn_cell list"
  n_features :: int
  output_layer :: rrcell

text \<open>Line 77: \<open>input_dim if n == 0 else hidden_dim[n-1]\<close>.\<close>

definition layer_input_dim :: "'f init_args \<Rightarrow> nat \<Rightarrow> py_error + int" where
  "layer_input_dim a n = (if n = 0 then Inr (input_dim a) else list_index (hidden_dim a) (n - 1))"

text \<open>Lines 81-83: \<open>p[n] if type(p) is list else p\<close>.\<close>

definition layer_scalar :: "'a scalar_param \<Rightarrow> nat \<Rightarrow> py_error + 'a" where
  "layer_scalar p n = (case p of PyList xs \<Rightarrow> list_index xs n | Single v \<Rightarrow> Inr v)"

text \<open>
  Lines 86-110: a tensor of the stacked rank (3 for \<open>w\<close> and \<open>w_in\<close>, 2 for \<open>w_bias\<close>) is
  indexed by the layer number, any other tensor is taken whole, anything else gives None.
\<close>

definition layer_matrix :: "nat \<Rightarrow> matrix_param \<Rightarrow> nat \<Rightarrow> py_error + tensor option" where
  "layer_matrix stacked_ndim p n =
     (case p of
        PyTensor t \<Rightarrow>
          if ndim t = stacked_ndim then bind_err (tensor_index t n) (\<lambda>s. Inr (Some s))
          else Inr (Some t)
      | _ \<Rightarrow> Inr None)"

text \<open>
  One pass of the loop body (lines 76-117) for layer \<open>n\<close>, on the pair of \<open>self.n_features\<close>
  and \<open>self.esn_layers\<close>, in the source's order of evaluation.
\<close>

definition loop_body ::
  "'f init_args \<Rightarrow> nat \<Rightarrow> int \<times> 'f esn_cell list \<Rightarrow> py_error + (int \<times> 'f esn_cell list)" where
  "loop_body a n st =
     bind_err (layer_input_dim a n) (\<lambda>lid.
     bind_err (layer_scalar (spectral_radius a) n) (\<lambda>layer_sr.
     bind_err (layer_scalar (bias_scaling a) n) (\<lambda>layer_bs.
     bind_err (layer_scalar (input_scaling a) n) (\<lambda>layer_is.
     bind_err (layer_matrix 3 (w a) n) (\<lambda>layer_w.
     bind_err (layer_matrix 3 (w_in a) n) (\<lambda>layer_w_in.
     bind_err (layer_matrix 2 (w_bias a) n) (\<lambda>layer_w_bias.
     bind_err (list_index (hidden_dim a) n) (\<lambda>hid.
       Inr (fst st + lid,
            snd st @ [ESNCell lid hid layer_sr layer_bs layer_is layer_w layer_w_in
                        layer_w_bias None (sparsity a) (input_set a) (w_sparsity a)
                        (nonlin_func a) (feedbacks a) (output_dim a) (wfdb_sparsity a)
                        (normalize_feedbacks a)])))))))))"

text \<open>\<open>for n in range(self.n_layers)\<close>: the body over the indices in order, stopping at a raise.\<close>

fun layers_loop ::
  "'f init_args \<Rightarrow> nat list \<Rightarrow> int \<times> 'f esn_cell list \<Rightarrow> py_error + (int \<times> 'f esn_cell list)" where
  "layers_loop a [] st = Inr st"
| "layers_loop a (n # ns) st = bind_err (loop_body a n st) (layers_loop a ns)"

definition init :: "'f init_args \<Rightarrow> py_error + 'f stacked_esn" where
  "init a =
     bind_err (layers_loop a [0..<length (hidden_dim a)] (0, [])) (\<lambda>st.
       Inr \<lparr>training = True, n_layers = length (hidden_dim a), esn_layers = snd st,
            n_features = fst st,
            output_layer = RRCell (fst st) (output_dim a) (ridge_param a) (feedbacks a) (with_bias a)
                       (learning_algo a)\<rparr>)"

subsection \<open>Attribute lookup\<close>

text \<open>
  What an attribute read on the stack can give back. \<open>self.output\<close> is a registered submodule
  and is found by \<open>nn.Module.__getattr__\<close>; the other attributes are in the instance
  dictionary. \<open>self.esn_layers\<close> is a plain Python list, so its cells are not submodules.
  A name that neither \<open>nn.Module.__init__\<close> nor \<open>__init__\<close> assigns raises AttributeError.
\<close>

datatype 'f py_value =
  VNone | VBool bool | VInt int | VTensor tensor | VLayers "'f esn_cell list" | VModule rrcell

definition module_getattr :: "'f stacked_esn \<Rightarrow> string \<Rightarrow> py_error + 'f py_value" where
  "module_getattr self name =
     (if name = ''output'' then Inr (VModule (output_layer self))
      else Inl (AttributeError name))"

definition getattr :: "'f stacked_esn \<Rightarrow> string \<Rightarrow> py_error + 'f py_value" where
  "getattr self name =
     (if name = ''training'' then Inr (VBool (training self))
      else if name = ''n_layers'' then Inr (VInt (int (n_layers self)))
      else if name = ''esn_layers'' then Inr (VLayers (esn_layers self))
      else if name = ''n_features'' then Inr (VInt (n_features self))
      else module_getattr self name)"

text \<open>
  A \<open>@property\<close> whose getter raises AttributeError: Python then calls the class's
  \<open>__getattr__\<close> with the property's own name.
\<close>

definition property_get ::
  "'f stacked_esn \<Rightarrow> string \<Rightarrow> py_error + 'f py_value \<Rightarrow> py_error + 'f py_value" where
  "property_get self name r =
     (case r of Inl (AttributeError _) \<Rightarrow> module_getattr self name | _ \<Rightarrow> r)"

text \<open>Python truth value of an attribute.\<close>

fun truthy :: "'f py_value \<Rightarrow> bool" where
  "truthy VNone = False"
| "truthy (VBool b) = b"
| "truthy (VInt i) = (i \<noteq> 0)"
| "truthy (VLayers cs) = (cs \<noteq> [])"
| "truthy _ = True"

subsection \<open>Properties and methods\<close>

text \<open>
  The members of a reservoir cell are outside this file: reading an attribute of a retrieved
  object is the parameter \<open>attr_of\<close>, assigning one is \<open>set_attr\<close>, calling a method of it
  is \<open>call_method\<close>, calling the cell on a sequence is \<open>call_cell\<close>, calling the readout is
  \<open>call_output\<close> and its finalize is \<open>rr_finalize\<close>.
\<close>

definition hidden ::
  "('f py_value \<Rightarrow> string \<Rightarrow> py_error + 'f py_value) \<Rightarrow> 'f stacked_esn \<Rightarrow>
   py_error + 'f py_value" where
  "hidden attr_of self =
     property_get self ''hidden''
       (bind_err (getattr self ''esn_cell'') (\<lambda>c. attr_of c ''hidden''))"

definition w_property ::
  "('f py_value \<Rightarrow> string \<Rightarrow> py_error + 'f py_value) \<Rightarrow> 'f stacked_esn \<Rightarrow>
   py_error + 'f py_value" where
  "w_property attr_of self =
     property_get self ''w''
       (bind_err (getattr self ''esn_cell'') (\<lambda>c. attr_of c ''w''))"

definition w_in_property ::
  "('f py_value \<Rightarrow> string \<Rightarrow> py_error + 'f py_value) \<Rightarrow> 'f stacked_esn \<Rightarrow>
   py_error + 'f py_value" where
  "w_in_property attr_of self =
     property_get self ''w_in''
       (bind_err (getattr self ''esn_cell'') (\<lambda>c. attr_of c ''w_in''))"

text \<open>\<open>nn.Module.train(mode)\<close>: sets the flag on the module and on its registered children.\<close>

definition train :: "'f stacked_esn \<Rightarrow> bool \<Rightarrow> 'f stacked_esn" where
  "train self mode =
     self\<lparr>training := mode, output_layer := (output_layer self)\<lparr>rr_training := mode\<rparr>\<rparr>"

definition reset :: "'f stacked_esn \<Rightarrow> 'f stacked_esn" where
  "reset self = train (self\<lparr>output_layer := rr_reset (output_layer self)\<rparr>) True"

definition get_w_out :: "'f stacked_esn \<Rightarrow> tensor option" where
  "get_w_out self = w_out (output_layer self)"

definition set_w ::
  "('f py_value \<Rightarrow> string \<Rightarrow> tensor \<Rightarrow> 'f stacked_esn \<Rightarrow> py_error + 'f stacked_esn) \<Rightarrow>
   'f stacked_esn \<Rightarrow> tensor \<Rightarrow> py_error + 'f stacked_esn" where
  "set_w set_attr self wv =
     bind_err (getattr self ''esn_cell'') (\<lambda>c. set_attr c ''w'' wv self)"

definition forward ::
  "('f py_value \<Rightarrow> tensor \<Rightarrow> tensor option \<Rightarrow> 'f py_value option \<Rightarrow> py_error + tensor) \<Rightarrow>
   (rrcell \<Rightarrow> tensor \<Rightarrow> py_error + ('o \<times> rrcell)) \<Rightarrow>
   'f stacked_esn \<Rightarrow> tensor \<Rightarrow> tensor option \<Rightarrow> py_error + ('o \<times> 'f stacked_esn)" where
  "forward call_cell call_output self u y =
     bind_err
       (bind_err (getattr self ''feedbacks'') (\<lambda>fb.
          if truthy fb \<and> training self
          then bind_err (getattr self ''esn_cell'') (\<lambda>c. call_cell c u y None)
          else
            bind_err (getattr self ''feedbacks'') (\<lambda>fb2.
              if truthy fb2 \<and> \<not> training self
              then bind_err (getattr self ''esn_cell'') (\<lambda>c.
                     bind_err (getattr self ''w_out'') (\<lambda>wo. call_cell c u None (Some wo)))
              else bind_err (getattr self ''esn_cell'') (\<lambda>c. call_cell c u None None))))
       (\<lambda>hidden_states.
          bind_err (call_output (output_layer self) hidden_states) (\<lambda>r.
            Inr (fst r, self\<lparr>output_layer := snd r\<rparr>)))"

definition finalize ::
  "(rrcell \<Rightarrow> py_error + rrcell) \<Rightarrow> 'f stacked_esn \<Rightarrow> py_error + 'f stacked_esn" where
  "finalize rr_finalize self =
     bind_err (rr_finalize (output_layer self)) (\<lambda>r.
       Inr (train (self\<lparr>output_layer := r\<rparr>) False))"

definition reset_hidden ::
  "('f py_value \<Rightarrow> string \<Rightarrow> 'f stacked_esn \<Rightarrow> py_error + 'f stacked_esn) \<Rightarrow>
   'f stacked_esn \<Rightarrow> py_error + 'f stacked_esn" where
  "reset_hidden call_method self =
     bind_err (getattr self ''esn_cell'') (\<lambda>c. call_method c ''reset_hidden'' self)"

definition get_spectral_radius ::
  "('f py_value \<Rightarrow> string \<Rightarrow> 'f stacked_esn \<Rightarrow> py_error + 'f py_value) \<Rightarrow>
   'f stacked_esn \<Rightarrow> py_error + 'f py_value" where
  "get_spectral_radius call_method self =
     bind_err (getattr self ''esn_cell'') (\<lambda>c. call_method c ''get_spectral_raduis'' self)"

subsection \<open>Auxiliary notions for the proofs\<close>

text \<open>The cell that the loop body appends for layer \<open>n\<close>, apart from the accumulators.\<close>

definition layer_cell :: "'f init_args \<Rightarrow> nat \<Rightarrow> py_error + 'f esn_cell" where
  "layer_cell a n =
     bind_err (layer_input_dim a n) (\<lambda>lid.
     bind_err (layer_scalar (spectral_radius a) n) (\<lambda>layer_sr.
     bind_err (layer_scalar (bias_scaling a) n) (\<lambda>layer_bs.
     bind_err (layer_scalar (input_scaling a) n) (\<lambda>layer_is.
     bind_err (layer_matrix 3 (w a) n) (\<lambda>layer_w.
     bind_err (layer_matrix 3 (w_in a) n) (\<lambda>layer_w_in.
     bind_err (layer_matrix 2 (w_bias a) n) (\<lambda>layer_w_bias.
     bind_err (list_index (hidden_dim a) n) (\<lambda>hid.
       Inr (ESNCell lid hid layer_sr layer_bs layer_is layer_w layer_w_in
              layer_w_bias None (sparsity a) (input_set a) (w_sparsity a)
              (nonlin_func a) (feedbacks a) (output_dim a) (wfdb_sparsity a)
              (normalize_feedbacks a))))))))))"

text \<open>
  When a per-layer value has an entry for each of \<open>k\<close> layers: a list of at least \<open>k\<close>
  entries, a stacked tensor with leading dimension at least \<open>k\<close>; anything that is handed on
  whole has.
\<close>

definition leading_dim :: "tensor \<Rightarrow> nat" where
  "leading_dim t = (case shape t of [] \<Rightarrow> 0 | d # ds \<Rightarrow> d)"

definition scalar_covers :: "'a scalar_param \<Rightarrow> nat \<Rightarrow> bool" where
  "scalar_covers p k = (case p of PyList xs \<Rightarrow> k \<le> length xs | Single v \<Rightarrow> True)"

definition matrix_covers :: "nat \<Rightarrow> matrix_param \<Rightarrow> nat \<Rightarrow> bool" where
  "matrix_covers stacked_ndim p k =
     (case p of
        PyTensor t \<Rightarrow> if ndim t = stacked_ndim then k \<le> leading_dim t else True
      | _ \<Rightarrow> True)"

definition lengths_cover :: "'f init_args \<Rightarrow> bool" where
  "lengths_cover a =
     (scalar_covers (spectral_radius a) (length (hidden_dim a)) \<and>
      scalar_covers (bias_scaling a) (length (hidden_dim a)) \<and>
      scalar_covers (input_scaling a) (length (hidden_dim a)) \<and>
      matrix_covers 3 (w a) (length (hidden_dim a)) \<and>
      matrix_covers 3 (w_in a) (length (hidden_dim a)) \<and>
      matrix_covers 2 (w_bias a) (length (hidden_dim a)))"

subsection \<open>A concrete stack\<close>

text \<open>
  The two-layer configuration \<open>StackedESN(3, [5, 4], 2)\<close> with every other argument at its
  default, and the instance that the constructor builds from it.
\<close>

definition example_args :: "string init_args" where
  "example_args = default_args ''tanh'' 3 [5, 4] 2"

definition example_stack :: "string stacked_esn" where
  "example_stack =
     \<lparr>training = True, n_layers = 2,
      esn_layers =
        [ESNCell 3 5 0.9 0 1 None None None None None [1, -1] None ''tanh'' False 2 None False,
         ESNCell 5 4 0.9 0 1 None None None None None [1, -1] None ''tanh'' False 2 None False],
      n_features = 8, output_layer = RRCell 8 2 0 False True ''inv''\<rparr>"

text \<open>
  A three-layer configuration with a list for each scalar hyperparameter:
  \<open>StackedESN(3, [5, 4, 6], 2, spectral_radius=[0.9, 0.8, 0.7], bias_scaling=[0.1, 0.2, 0.3],
  input_scaling=[1.0, 0.5, 0.25])\<close>.
\<close>

definition per_layer_args :: "string init_args" where
  "per_layer_args =
     (default_args ''tanh'' 3 [5, 4, 6] 2)
       \<lparr>spectral_radius := PyList [0.9, 0.8, 0.7], bias_scaling := PyList [0.1, 0.2, 0.3],
        input_scaling := PyList [1, 0.5, 0.25]\<rparr>"

definition per_layer_stack :: "string stacked_esn" where
  "per_layer_stack =
     \<lparr>training = True, n_layers = 3,
      esn_layers =
        [ESNCell 3 5 0.9 0.1 1 None None None None None [1, -1] None ''tanh'' False 2 None False,
         ESNCell 5 4 0.8 0.2 0.5 None None None None None [1, -1] None ''tanh'' False 2 None False,
         ESNCell 4 6 0.7 0.3 0.25 None None None None None [1, -1] None ''tanh'' False 2 None
           False],
      n_features = 12, output_layer = RRCell 12 2 0 False True ''inv''\<rparr>"

text \<open>
  The configuration of the spec's example, \<open>hidden_dim=[10, 20]\<close> with the three-entry list
  \<open>spectral_radius=[0.9, 0.8, 0.7]\<close>; the same with the one-entry list \<open>[0.9]\<close>; and a
  configuration with an empty \<open>hidden_dim\<close>.
\<close>

definition long_list_args :: "string init_args" where
  "long_list_args =
     (default_args ''tanh'' 3 [10, 20] 2)\<lparr>spectral_radius := PyList [0.9, 0.8, 0.7]\<rparr>"

definition long_list_stack :: "string stacked_esn" where
  "long_list_stack =
     \<lparr>training = True, n_layers = 2,
      esn_layers =
        [ESNCell 3 10 0.9 0 1 None None None None None [1, -1] None ''tanh'' False 2 None False,
         ESNCell 10 20 0.8 0 1 None None None None None [1, -1] None ''tanh'' False 2 None
           False],
      n_features = 13, output_layer = RRCell 13 2 0 False True ''inv''\<rparr>"

definition short_list_args :: "string init_args" where
  "short_list_args = (default_args ''tanh'' 3 [10, 20] 2)\<lparr>spectral_radius := PyList [0.9]\<rparr>"

definition no_layer_args :: "string init_args" where
  "no_layer_args = default_args ''tanh'' 3 [] 2"

definition no_layer_stack :: "string stacked_esn" where
  "no_layer_stack =
     \<lparr>training = True, n_layers = 0, esn_layers = [], n_features = 0,
      output_layer = RRCell 0 2 0 False True ''inv''\<rparr>"

text \<open>
  Weight tensors for two layers of width 3: a stack of two 3x3 matrices and one 3x3 matrix,
  a stack of two bias vectors and one bias vector; and three configurations
  \<open>StackedESN(3, [3, 3], 2, w=..., w_in=..., w_bias=...)\<close> that use them in turn.
\<close>

definition w_stacked :: tensor where
  "w_stacked = Tensor [2, 3, 3] [1, 2, 3, 4, 5, 6, 7, 8, 9, 10, 11, 12, 13, 14, 15, 16, 17, 18]"

definition w_single :: tensor where
  "w_single = Tensor [3, 3] [1, 2, 3, 4, 5, 6, 7, 8, 9]"

definition bias_stacked :: tensor where
  "bias_stacked = Tensor [2, 3] [1, 2, 3, 4, 5, 6]"

definition bias_single :: tensor where
  "bias_single = Tensor [3] [1, 2, 3]"

definition matrix_args1 :: "string init_args" where
  "matrix_args1 =
     (default_args ''tanh'' 3 [3, 3] 2)
       \<lparr>w := PyTensor w_stacked, w_in := PyTensor w_single, w_bias := PyNone\<rparr>"

definition matrix_args2 :: "string init_args" where
  "matrix_args2 =
     (default_args ''tanh'' 3 [3, 3] 2)
       \<lparr>w := PyTensor w_single, w_in := PyNone, w_bias := PyTensor bias_stacked\<rparr>"

definition matrix_args3 :: "string init_args" where
  "matrix_args3 =
     (default_args ''tanh'' 3 [3, 3] 2)
       \<lparr>w := PyNone, w_in := PyTensor w_stacked, w_bias := PyTensor bias_single\<rparr>"


subsection \<open>The loop\<close>

lemma bind_err_Inl [simp]: "bind_err (Inl e) f = Inl e"
  by (simp add: bind_err_def)

lemma bind_err_Inr [simp]: "bind_err (Inr x) f = f x"
  by (simp add: bind_err_def)

lemma bind_err_Inr_iff: "bind_err r f = Inr v \<longleftrightarrow> (\<exists>x. r = Inr x \<and> f x = Inr v)"
  by (cases r) simp_all

lemma loop_body_layer_cell:
  "loop_body a n st =
     bind_err (layer_cell a n) (\<lambda>c. Inr (fst st + cell_input_dim c, snd st @ [c]))"
  unfolding loop_body_def layer_cell_def
  by (auto simp: bind_err_def ESNCell_def split: sum.splits)

lemma layers_loop_Inr:
  "layers_loop a ns st = Inr st' \<Longrightarrow>
     \<exists>cs. map (layer_cell a) ns = map Inr cs \<and>
          st' = (fst st + sum_list (map cell_input_dim cs), snd st @ cs)"
proof (induction ns arbitrary: st)
  case Nil
  then show ?case by auto
next
  case (Cons n ns)
  from Cons.prems obtain c where c: "layer_cell a n = Inr c"
    and rest: "layers_loop a ns (fst st + cell_input_dim c, snd st @ [c]) = Inr st'"
    by (auto simp: loop_body_layer_cell bind_err_Inr_iff)
  from Cons.IH [OF rest] obtain cs where
    cs: "map (layer_cell a) ns = map Inr cs"
    and st': "st' = (fst st + cell_input_dim c + sum_list (map cell_input_dim cs), (snd st @ [c]) @ cs)"
    by auto
  have "map (layer_cell a) (n # ns) = map Inr (c # cs)" using c cs by simp
  moreover have "st' = (fst st + sum_list (map cell_input_dim (c # cs)), snd st @ (c # cs))"
    using st' by (simp add: add.assoc)
  ultimately show ?case by blast
qed

lemma layers_loop_ok:
  "map (layer_cell a) ns = map Inr cs \<Longrightarrow>
     layers_loop a ns st = Inr (fst st + sum_list (map cell_input_dim cs), snd st @ cs)"
proof (induction ns arbitrary: st cs)
  case Nil
  then show ?case by simp
next
  case (Cons n ns)
  then obtain c cs' where cs: "cs = c # cs'" and c: "layer_cell a n = Inr c"
    and rest: "map (layer_cell a) ns = map Inr cs'"
    by (cases cs) auto
  show ?case using Cons.IH [OF rest] c cs
    by (simp add: loop_body_layer_cell add.assoc)
qed

lemma layers_loop_Inl:
  "layers_loop a ns st = Inl e \<Longrightarrow> \<exists>n\<in>set ns. layer_cell a n = Inl e"
proof (induction ns arbitrary: st)
  case Nil
  then show ?case by simp
next
  case (Cons n ns)
  then show ?case
    by (cases "layer_cell a n") (auto simp: loop_body_layer_cell)
qed

subsection \<open>What a successful construction looks like\<close>

lemma init_Inr:
  assumes "init a = Inr self"
  obtains cs where "map (layer_cell a) [0..<length (hidden_dim a)] = map Inr cs"
    and "self = \<lparr>training = True, n_layers = length (hidden_dim a), esn_layers = cs,
            n_features = sum_list (map cell_input_dim cs),
            output_layer = RRCell (sum_list (map cell_input_dim cs)) (output_dim a)
                             (ridge_param a) (feedbacks a) (with_bias a) (learning_algo a)\<rparr>"
proof -
  from assms obtain st where
    loop: "layers_loop a [0..<length (hidden_dim a)] (0, []) = Inr st"
    and self: "self = \<lparr>training = True, n_layers = length (hidden_dim a), esn_layers = snd st,
            n_features = fst st,
            output_layer = RRCell (fst st) (output_dim a) (ridge_param a) (feedbacks a)
                             (with_bias a) (learning_algo a)\<rparr>"
    by (auto simp: init_def bind_err_Inr_iff)
  from layers_loop_Inr [OF loop] obtain cs where
    "map (layer_cell a) [0..<length (hidden_dim a)] = map Inr cs"
    "st = (sum_list (map cell_input_dim cs), cs)"
    by auto
  with self that show thesis by simp
qed

lemma init_cells:
  assumes "init a = Inr self"
  shows "length (esn_layers self) = length (hidden_dim a)"
    and "i < length (hidden_dim a) \<Longrightarrow> layer_cell a i = Inr (esn_layers self ! i)"
proof -
  from assms obtain cs where m: "map (layer_cell a) [0..<length (hidden_dim a)] = map Inr cs"
    and cs: "esn_layers self = cs"
    by (rule init_Inr) simp
  from m have len: "length cs = length (hidden_dim a)"
    by (metis length_map length_upt diff_zero)
  then show "length (esn_layers self) = length (hidden_dim a)" using cs by simp
  assume i: "i < length (hidden_dim a)"
  have "map (layer_cell a) [0..<length (hidden_dim a)] ! i = map Inr cs ! i"
    using m by simp
  then show "layer_cell a i = Inr (esn_layers self ! i)"
    using i len cs by simp
qed

lemma layer_cell_fields:
  assumes "layer_cell a n = Inr c"
  shows "layer_input_dim a n = Inr (cell_input_dim c)"
    and "list_index (hidden_dim a) n = Inr (cell_hidden_dim c)"
    and "layer_scalar (spectral_radius a) n = Inr (cell_spectral_radius c)"
    and "layer_scalar (bias_scaling a) n = Inr (cell_bias_scaling c)"
    and "layer_scalar (input_scaling a) n = Inr (cell_input_scaling c)"
    and "layer_matrix 3 (w a) n = Inr (cell_w c)"
    and "layer_matrix 3 (w_in a) n = Inr (cell_w_in c)"
    and "layer_matrix 2 (w_bias a) n = Inr (cell_w_bias c)"
    and "cell_w_fdb c = None"
    and "cell_feedbacks_dim c = output_dim a"
  using assms unfolding layer_cell_def
  by (auto simp: bind_err_Inr_iff ESNCell_def)


lemmas init_eval_defs =
  init_def default_args_def upt_rec loop_body_def layer_input_dim_def layer_scalar_def
  layer_matrix_def list_index_def

lemma init_example: "init example_args = Inr example_stack"
  by (simp add: example_args_def example_stack_def init_eval_defs)

lemma sum_input_widths:
  assumes len: "length ds = length hs" and "hs \<noteq> []"
    and nth: "\<And>i. i < length hs \<Longrightarrow> ds ! i = (if i = 0 then d0 else hs ! (i - 1))"
  shows "ds = d0 # butlast hs"
proof (rule nth_equalityI)
  show "length ds = length (d0 # butlast hs)" using len \<open>hs \<noteq> []\<close> by (cases hs) auto
next
  fix i assume "i < length ds"
  then have i: "i < length hs" using len by simp
  show "ds ! i = (d0 # butlast hs) ! i"
  proof (cases i)
    case 0
    then show ?thesis using nth [OF i] by simp
  next
    case (Suc j)
    then have "j < length (butlast hs)" using i by simp
    then show ?thesis using nth [OF i] Suc by (simp add: nth_butlast)
  qed
qed

lemma layer_input_dim_Inr:
  "n < length (hidden_dim a) \<Longrightarrow>
     layer_input_dim a n = Inr (if n = 0 then input_dim a else hidden_dim a ! (n - 1))"
  by (auto simp: layer_input_dim_def list_index_def)

lemma init_input_dims:
  assumes "init a = Inr self" and "i < length (hidden_dim a)"
  shows "cell_input_dim (esn_layers self ! i) = (if i = 0 then input_dim a else hidden_dim a ! (i - 1))"
    and "cell_hidden_dim (esn_layers self ! i) = hidden_dim a ! i"
proof -
  have c: "layer_cell a i = Inr (esn_layers self ! i)"
    using assms by (rule init_cells(2))
  show "cell_input_dim (esn_layers self ! i) = (if i = 0 then input_dim a else hidden_dim a ! (i - 1))"
    using layer_cell_fields(1) [OF c] layer_input_dim_Inr [OF assms(2)] by simp
  show "cell_hidden_dim (esn_layers self ! i) = hidden_dim a ! i"
    using layer_cell_fields(2) [OF c] assms(2) by (simp add: list_index_def)
qed

lemma init_n_features:
  assumes "init a = Inr self"
  shows "n_features self = sum_list (map cell_input_dim (esn_layers self))"
    and "rr_input_dim (output_layer self) = n_features self"
    and "n_layers self = length (hidden_dim a)"
  using assms by (auto elim!: init_Inr simp: RRCell_def)

text \<open>
  C2. For every successful construction with a non-empty \<open>hidden_dim\<close>, \<open>n_features\<close> is
  \<open>input_dim\<close> plus all entries of \<open>hidden_dim\<close> but the last, that is the sum of the layers'
  input widths; it is the sum of the hidden widths only when \<open>input_dim\<close> equals the last
  hidden width; and the readout is constructed with \<open>n_features\<close> as its input width.
\<close>

theorem n_features_sums_input_widths:
  assumes "init a = Inr self" and "hidden_dim a \<noteq> []"
  shows "n_features self = input_dim a + sum_list (butlast (hidden_dim a)) \<and>
         n_features self = sum_list (map cell_input_dim (esn_layers self)) \<and>
         (n_features self = sum_list (hidden_dim a) \<longleftrightarrow> input_dim a = last (hidden_dim a)) \<and>
         rr_input_dim (output_layer self) = n_features self"
proof -
  have "map cell_input_dim (esn_layers self) = input_dim a # butlast (hidden_dim a)"
  proof (rule sum_input_widths)
    show "length (map cell_input_dim (esn_layers self)) = length (hidden_dim a)"
      using init_cells(1) [OF assms(1)] by simp
    show "hidden_dim a \<noteq> []" by fact
    fix i assume i: "i < length (hidden_dim a)"
    then show "map cell_input_dim (esn_layers self) ! i =
        (if i = 0 then input_dim a else hidden_dim a ! (i - 1))"
      using init_input_dims(1) [OF assms(1) i] init_cells(1) [OF assms(1)] by simp
  qed
  then have nf: "n_features self = input_dim a + sum_list (butlast (hidden_dim a))"
    using init_n_features(1) [OF assms(1)] by simp
  have "sum_list (hidden_dim a) = sum_list (butlast (hidden_dim a)) + last (hidden_dim a)"
    using assms(2) by (metis append_butlast_last_id sum_list.append sum_list.Cons sum_list.Nil add.right_neutral)
  with nf have "n_features self = sum_list (hidden_dim a) \<longleftrightarrow> input_dim a = last (hidden_dim a)"
    by auto
  with nf init_n_features [OF assms(1)] show ?thesis by simp
qed


theorem n_features_sums_input_widths_witness:
  "init example_args = Inr example_stack \<and> hidden_dim example_args = [5, 4] \<and>
   n_features example_stack = 3 + 5 \<and>
   n_features example_stack \<noteq> sum_list (hidden_dim example_args) \<and>
   rr_input_dim (output_layer example_stack) = 8"
proof -
  have h: "hidden_dim example_args = [5, 4]" "input_dim example_args = 3"
    by (simp_all add: example_args_def default_args_def)
  then have ne: "hidden_dim example_args \<noteq> []" by simp
  show ?thesis
    using n_features_sums_input_widths [OF init_example ne] h init_example by simp
qed


text \<open>
  C3. A successful construction has exactly \<open>len(hidden_dim)\<close> cells; cell \<open>i\<close> is built with
  hidden width \<open>hidden_dim[i]\<close> and with input width \<open>input_dim\<close> for \<open>i = 0\<close> and
  \<open>hidden_dim[i-1]\<close> otherwise, so that for \<open>i > 0\<close> the input width of cell \<open>i\<close> is the hidden
  width of cell \<open>i - 1\<close>.
\<close>

theorem strict_layer_chaining:
  assumes "init a = Inr self"
  shows "n_layers self = length (hidden_dim a) \<and>
         length (esn_layers self) = n_layers self \<and>
         (\<forall>i<n_layers self.
            cell_hidden_dim (esn_layers self ! i) = hidden_dim a ! i \<and>
            cell_input_dim (esn_layers self ! i) =
              (if i = 0 then input_dim a else hidden_dim a ! (i - 1))) \<and>
         (\<forall>i. 0 < i \<and> i < n_layers self \<longrightarrow>
            cell_input_dim (esn_layers self ! i) = cell_hidden_dim (esn_layers self ! (i - 1)))"
proof -
  have n: "n_layers self = length (hidden_dim a)"
    using assms by (rule init_n_features(3))
  have len: "length (esn_layers self) = n_layers self"
    using init_cells(1) [OF assms] n by simp
  have dims: "cell_hidden_dim (esn_layers self ! i) = hidden_dim a ! i \<and>
      cell_input_dim (esn_layers self ! i) =
        (if i = 0 then input_dim a else hidden_dim a ! (i - 1))"
    if "i < n_layers self" for i
    using init_input_dims [OF assms, of i] that n by simp
  have chain: "cell_input_dim (esn_layers self ! i) = cell_hidden_dim (esn_layers self ! (i - 1))"
    if "0 < i \<and> i < n_layers self" for i
  proof -
    from that have "i - 1 < n_layers self" by arith
    from dims [OF this] dims [of i] that show ?thesis by simp
  qed
  from n len dims chain show ?thesis by blast
qed

theorem strict_layer_chaining_witness:
  "init example_args = Inr example_stack \<and>
   n_layers example_stack = 2 \<and> length (esn_layers example_stack) = 2 \<and>
   cell_input_dim (esn_layers example_stack ! 0) = 3 \<and>
   cell_hidden_dim (esn_layers example_stack ! 0) = 5 \<and>
   cell_input_dim (esn_layers example_stack ! 1) = 5 \<and>
   cell_hidden_dim (esn_layers example_stack ! 1) = 4"
proof -
  have a: "hidden_dim example_args = [5, 4]" "input_dim example_args = 3"
    by (simp_all add: example_args_def default_args_def)
  note t = strict_layer_chaining [OF init_example]
  from t have n: "n_layers example_stack = 2" using a by simp
  from t n have c0: "cell_hidden_dim (esn_layers example_stack ! 0) = 5 \<and>
      cell_input_dim (esn_layers example_stack ! 0) = 3"
    using a by simp
  have "(1::nat) < 2" by simp
  with t n have c1: "cell_hidden_dim (esn_layers example_stack ! 1) = 4"
    using a by simp
  from t n have "cell_input_dim (esn_layers example_stack ! 1) =
      cell_hidden_dim (esn_layers example_stack ! (1 - 1))"
    by simp
  with c0 have c1': "cell_input_dim (esn_layers example_stack ! 1) = 5" by simp
  from t n c0 c1 c1' init_example show ?thesis by simp
qed


subsection \<open>Scalar hyperparameters\<close>

lemma per_layer_scalars:
  assumes len: "length cs = k"
    and nth: "\<And>i. i < k \<Longrightarrow> layer_scalar p i = Inr (f (cs ! i))"
  shows "p = PyList xs \<Longrightarrow> k \<le> length xs \<and> map f cs = take k xs"
    and "p = Single s \<Longrightarrow> map f cs = replicate k s"
proof -
  assume p: "p = PyList xs"
  have in_range: "i < length xs \<and> xs ! i = f (cs ! i)" if "i < k" for i
    using nth [OF that] p by (auto simp: layer_scalar_def list_index_def split: if_splits)
  have k: "k \<le> length xs"
  proof (rule ccontr)
    assume "\<not> k \<le> length xs"
    then have "length xs < k" by simp
    from in_range [OF this] show False by simp
  qed
  moreover have "map f cs = take k xs"
    by (rule nth_equalityI) (use len k in_range in auto)
  ultimately show "k \<le> length xs \<and> map f cs = take k xs" ..
next
  assume p: "p = Single s"
  have "f (cs ! i) = s" if "i < k" for i
    using nth [OF that] p by (simp add: layer_scalar_def)
  then show "map f cs = replicate k s"
    using len by (intro nth_equalityI) auto
qed

lemma init_scalars:
  assumes "init a = Inr self"
  shows "spectral_radius a = PyList xs \<Longrightarrow>
           length (hidden_dim a) \<le> length xs \<and>
           map cell_spectral_radius (esn_layers self) = take (length (hidden_dim a)) xs"
    and "bias_scaling a = PyList xs \<Longrightarrow>
           length (hidden_dim a) \<le> length xs \<and>
           map cell_bias_scaling (esn_layers self) = take (length (hidden_dim a)) xs"
    and "input_scaling a = PyList xs \<Longrightarrow>
           length (hidden_dim a) \<le> length xs \<and>
           map cell_input_scaling (esn_layers self) = take (length (hidden_dim a)) xs"
    and "spectral_radius a = Single s \<Longrightarrow>
           map cell_spectral_radius (esn_layers self) = replicate (length (hidden_dim a)) s"
    and "bias_scaling a = Single s \<Longrightarrow>
           map cell_bias_scaling (esn_layers self) = replicate (length (hidden_dim a)) s"
    and "input_scaling a = Single s \<Longrightarrow>
           map cell_input_scaling (esn_layers self) = replicate (length (hidden_dim a)) s"
proof -
  note len = init_cells(1) [OF assms]
  have sr: "layer_scalar (spectral_radius a) i = Inr (cell_spectral_radius (esn_layers self ! i))"
    if "i < length (hidden_dim a)" for i
    using layer_cell_fields(3) [OF init_cells(2) [OF assms that]] .
  have bs: "layer_scalar (bias_scaling a) i = Inr (cell_bias_scaling (esn_layers self ! i))"
    if "i < length (hidden_dim a)" for i
    using layer_cell_fields(4) [OF init_cells(2) [OF assms that]] .
  have isc: "layer_scalar (input_scaling a) i = Inr (cell_input_scaling (esn_layers self ! i))"
    if "i < length (hidden_dim a)" for i
    using layer_cell_fields(5) [OF init_cells(2) [OF assms that]] .
  show "spectral_radius a = PyList xs \<Longrightarrow>
           length (hidden_dim a) \<le> length xs \<and>
           map cell_spectral_radius (esn_layers self) = take (length (hidden_dim a)) xs"
    using per_layer_scalars(1) [OF len sr] by blast
  show "bias_scaling a = PyList xs \<Longrightarrow>
           length (hidden_dim a) \<le> length xs \<and>
           map cell_bias_scaling (esn_layers self) = take (length (hidden_dim a)) xs"
    using per_layer_scalars(1) [OF len bs] by blast
  show "input_scaling a = PyList xs \<Longrightarrow>
           length (hidden_dim a) \<le> length xs \<and>
           map cell_input_scaling (esn_layers self) = take (length (hidden_dim a)) xs"
    using per_layer_scalars(1) [OF len isc] by blast
  show "spectral_radius a = Single s \<Longrightarrow>
           map cell_spectral_radius (esn_layers self) = replicate (length (hidden_dim a)) s"
    using per_layer_scalars(2) [OF len sr] by blast
  show "bias_scaling a = Single s \<Longrightarrow>
           map cell_bias_scaling (esn_layers self) = replicate (length (hidden_dim a)) s"
    using per_layer_scalars(2) [OF len bs] by blast
  show "input_scaling a = Single s \<Longrightarrow>
           map cell_input_scaling (esn_layers self) = replicate (length (hidden_dim a)) s"
    using per_layer_scalars(2) [OF len isc] by blast
qed

text \<open>
  C6. Resolving the list \<open>[x1, x2, x3]\<close> gives \<open>x1\<close>, \<open>x2\<close>, \<open>x3\<close> at the indices 0, 1, 2, and
  resolving a single value gives that value at every index. In a successful construction
  with three layers, a three-entry list for \<open>spectral_radius\<close>, \<open>bias_scaling\<close> or
  \<open>input_scaling\<close> reaches the three cells entry by entry, in order; a single value reaches
  every cell, for any number of layers.
\<close>

theorem scalar_param_round_trip:
  assumes "init a = Inr self"
  shows "layer_scalar (PyList [x1, x2, x3]) 0 = Inr x1 \<and>
         layer_scalar (PyList [x1, x2, x3]) 1 = Inr x2 \<and>
         layer_scalar (PyList [x1, x2, x3]) 2 = Inr x3 \<and>
         (\<forall>n. layer_scalar (Single s) n = Inr s) \<and>
         (length (hidden_dim a) = 3 \<longrightarrow> spectral_radius a = PyList [x1, x2, x3] \<longrightarrow>
            map cell_spectral_radius (esn_layers self) = [x1, x2, x3]) \<and>
         (length (hidden_dim a) = 3 \<longrightarrow> bias_scaling a = PyList [y1, y2, y3] \<longrightarrow>
            map cell_bias_scaling (esn_layers self) = [y1, y2, y3]) \<and>
         (length (hidden_dim a) = 3 \<longrightarrow> input_scaling a = PyList [z1, z2, z3] \<longrightarrow>
            map cell_input_scaling (esn_layers self) = [z1, z2, z3]) \<and>
         (spectral_radius a = Single s \<longrightarrow>
            map cell_spectral_radius (esn_layers self) = replicate (length (hidden_dim a)) s) \<and>
         (bias_scaling a = Single sb \<longrightarrow>
            map cell_bias_scaling (esn_layers self) = replicate (length (hidden_dim a)) sb) \<and>
         (input_scaling a = Single si \<longrightarrow>
            map cell_input_scaling (esn_layers self) = replicate (length (hidden_dim a)) si)"
proof -
  have "layer_scalar (PyList [x1, x2, x3]) 0 = Inr x1"
    "layer_scalar (PyList [x1, x2, x3]) 1 = Inr x2"
    "layer_scalar (PyList [x1, x2, x3]) 2 = Inr x3"
    "\<forall>n. layer_scalar (Single s) n = Inr s"
    by (simp_all add: layer_scalar_def list_index_def)
  moreover have "length (hidden_dim a) = 3 \<longrightarrow> spectral_radius a = PyList [x1, x2, x3] \<longrightarrow>
      map cell_spectral_radius (esn_layers self) = [x1, x2, x3]"
    using init_scalars(1) [OF assms, of "[x1, x2, x3]"] by simp
  moreover have "length (hidden_dim a) = 3 \<longrightarrow> bias_scaling a = PyList [y1, y2, y3] \<longrightarrow>
      map cell_bias_scaling (esn_layers self) = [y1, y2, y3]"
    using init_scalars(2) [OF assms, of "[y1, y2, y3]"] by simp
  moreover have "length (hidden_dim a) = 3 \<longrightarrow> input_scaling a = PyList [z1, z2, z3] \<longrightarrow>
      map cell_input_scaling (esn_layers self) = [z1, z2, z3]"
    using init_scalars(3) [OF assms, of "[z1, z2, z3]"] by simp
  moreover note init_scalars(4) [OF assms, of s] init_scalars(5) [OF assms, of sb]
    init_scalars(6) [OF assms, of si]
  ultimately show ?thesis by blast
qed

lemma init_per_layer: "init per_layer_args = Inr per_layer_stack"
  by (simp add: per_layer_args_def per_layer_stack_def init_eval_defs)

theorem scalar_param_round_trip_witness:
  "init per_layer_args = Inr per_layer_stack \<and>
   length (hidden_dim per_layer_args) = 3 \<and>
   spectral_radius per_layer_args = PyList [0.9, 0.8, 0.7] \<and>
   map cell_spectral_radius (esn_layers per_layer_stack) = [0.9, 0.8, 0.7] \<and>
   bias_scaling per_layer_args = PyList [0.1, 0.2, 0.3] \<and>
   map cell_bias_scaling (esn_layers per_layer_stack) = [0.1, 0.2, 0.3] \<and>
   input_scaling per_layer_args = PyList [1, 0.5, 0.25] \<and>
   map cell_input_scaling (esn_layers per_layer_stack) = [1, 0.5, 0.25] \<and>
   init example_args = Inr example_stack \<and>
   spectral_radius example_args = Single 0.9 \<and>
   map cell_spectral_radius (esn_layers example_stack) = [0.9, 0.9] \<and>
   bias_scaling example_args = Single 0 \<and>
   map cell_bias_scaling (esn_layers example_stack) = [0, 0] \<and>
   input_scaling example_args = Single 1 \<and>
   map cell_input_scaling (esn_layers example_stack) = [1, 1]"
proof -
  have p: "length (hidden_dim per_layer_args) = 3"
    "spectral_radius per_layer_args = PyList [0.9, 0.8, 0.7]"
    "bias_scaling per_layer_args = PyList [0.1, 0.2, 0.3]"
    "input_scaling per_layer_args = PyList [1, 0.5, 0.25]"
    by (simp_all add: per_layer_args_def default_args_def)
  have e: "length (hidden_dim example_args) = 2"
    "spectral_radius example_args = Single 0.9"
    "bias_scaling example_args = Single 0"
    "input_scaling example_args = Single 1"
    by (simp_all add: example_args_def default_args_def)
  have two: "replicate 2 x = [x, x]" for x :: real
    by (simp add: numeral_2_eq_2)
  from scalar_param_round_trip [OF init_per_layer,
      of "0.9" "0.8" "0.7" 0 "0.1" "0.2" "0.3" 1 "0.5" "0.25" 0 0] p
  have lists: "map cell_spectral_radius (esn_layers per_layer_stack) = [0.9, 0.8, 0.7]"
    "map cell_bias_scaling (esn_layers per_layer_stack) = [0.1, 0.2, 0.3]"
    "map cell_input_scaling (esn_layers per_layer_stack) = [1, 0.5, 0.25]"
    by simp_all
  from scalar_param_round_trip [OF init_example, of 0 0 0 "0.9" 0 0 0 0 0 0 0 1] e
  have singles: "map cell_spectral_radius (esn_layers example_stack) = [0.9, 0.9]"
    "map cell_bias_scaling (esn_layers example_stack) = [0, 0]"
    "map cell_input_scaling (esn_layers example_stack) = [1, 1]"
    by (simp_all add: two)
  from p e lists singles init_per_layer init_example show ?thesis by simp
qed


subsection \<open>The feedback weights argument\<close>

lemma loop_body_w_fdb: "loop_body (a\<lparr>w_fdb := x\<rparr>) n st = loop_body a n st"
  by (simp add: loop_body_def layer_input_dim_def)

lemma layers_loop_w_fdb: "layers_loop (a\<lparr>w_fdb := x\<rparr>) ns st = layers_loop a ns st"
proof (induction ns arbitrary: st)
  case Nil
  show ?case by simp
next
  case (Cons n ns)
  have "layers_loop (a\<lparr>w_fdb := x\<rparr>) ns = layers_loop a ns"
    using Cons.IH by (intro ext)
  then show ?case by (simp add: loop_body_w_fdb)
qed

lemma init_w_fdb: "init (a\<lparr>w_fdb := x\<rparr>) = init a"
  by (simp add: init_def layers_loop_w_fdb)

text \<open>
  C10. The \<open>w_fdb\<close> argument has no effect: two constructor calls that differ only in \<open>w_fdb\<close>
  give the same result, and every cell of a constructed stack has None in the feedback-weight
  position and \<open>output_dim\<close> as its feedback width.
\<close>

theorem w_fdb_has_no_effect:
  "init (a\<lparr>w_fdb := x\<rparr>) = init (a\<lparr>w_fdb := y\<rparr>) \<and>
   (init a = Inr self \<longrightarrow>
      (\<forall>i<length (esn_layers self).
         cell_w_fdb (esn_layers self ! i) = None \<and>
         cell_feedbacks_dim (esn_layers self ! i) = output_dim a))"
proof -
  have "cell_w_fdb (esn_layers self ! i) = None \<and>
      cell_feedbacks_dim (esn_layers self ! i) = output_dim a"
    if ok: "init a = Inr self" and i: "i < length (esn_layers self)" for i
  proof -
    from i have "i < length (hidden_dim a)" using init_cells(1) [OF ok] by simp
    from init_cells(2) [OF ok this] show ?thesis
      by (simp add: layer_cell_fields(9,10))
  qed
  then show ?thesis by (simp add: init_w_fdb)
qed

theorem w_fdb_has_no_effect_witness:
  "init (example_args\<lparr>w_fdb := PyTensor (Tensor [2, 2] [1, 2, 3, 4])\<rparr>) = Inr example_stack \<and>
   init (example_args\<lparr>w_fdb := PyNone\<rparr>) = Inr example_stack \<and>
   init example_args = Inr example_stack \<and>
   length (esn_layers example_stack) = 2 \<and>
   cell_w_fdb (esn_layers example_stack ! 0) = None \<and>
   cell_feedbacks_dim (esn_layers example_stack ! 0) = 2 \<and>
   cell_w_fdb (esn_layers example_stack ! 1) = None \<and>
   cell_feedbacks_dim (esn_layers example_stack ! 1) = 2"
proof -
  note t = w_fdb_has_no_effect [where a = example_args and self = example_stack
      and x = "PyTensor (Tensor [2, 2] [1, 2, 3, 4])" and y = PyNone]
  have len: "length (esn_layers example_stack) = 2"
    by (simp add: example_stack_def)
  have o: "output_dim example_args = 2" "example_args\<lparr>w_fdb := PyNone\<rparr> = example_args"
    by (simp_all add: example_args_def default_args_def)
  from t o init_example
  have same: "init (example_args\<lparr>w_fdb := PyTensor (Tensor [2, 2] [1, 2, 3, 4])\<rparr>) =
      Inr example_stack"
    by simp
  from t init_example len o
  have c0: "cell_w_fdb (esn_layers example_stack ! 0) = None \<and>
      cell_feedbacks_dim (esn_layers example_stack ! 0) = 2"
    by simp
  have "(1::nat) < 2" by simp
  with t init_example len o
  have c1: "cell_w_fdb (esn_layers example_stack ! 1) = None \<and>
      cell_feedbacks_dim (esn_layers example_stack ! 1) = 2"
    by simp
  from same c0 c1 len o init_example show ?thesis by simp
qed

subsection \<open>Lifecycle\<close>

text \<open>
  C7. In every state of the stack, \<open>reset()\<close> discards the readout weights (and the
  accumulated statistics), puts the stack and its readout in training mode, and leaves the
  list of reservoir cells, with every argument they were built from, as it was; the layer
  count and the feature width do not change either.
\<close>

theorem reset_frame:
  "get_w_out (reset self) = None \<and>
   rr_stats (output_layer (reset self)) = [] \<and>
   training (reset self) = True \<and>
   rr_training (output_layer (reset self)) = True \<and>
   esn_layers (reset self) = esn_layers self \<and>
   n_layers (reset self) = n_layers self \<and>
   n_features (reset self) = n_features self"
  by (simp add: reset_def train_def rr_reset_def get_w_out_def)

text \<open>
  C8. In every state of the stack, a second \<open>reset()\<close> changes nothing: the whole state
  after two resets, lifecycle flags and readout accumulators included, is the state after
  one.
\<close>

theorem reset_idempotent: "reset (reset self) = reset self"
  by (simp add: reset_def train_def rr_reset_def)

subsection \<open>Members that go through \<open>self.esn_cell\<close>\<close>

lemma getattr_esn_cell: "getattr self ''esn_cell'' = Inl (AttributeError ''esn_cell'')"
  by (simp add: getattr_def module_getattr_def)

lemma getattr_feedbacks: "getattr self ''feedbacks'' = Inl (AttributeError ''feedbacks'')"
  by (simp add: getattr_def module_getattr_def)

text \<open>
  C9. In every state of the stack, reading \<open>self.esn_cell\<close> raises AttributeError, and so
  every read of the properties \<open>hidden\<close>, \<open>w\<close> and \<open>w_in\<close> and every call of \<open>set_w\<close>,
  \<open>reset_hidden\<close> and \<open>get_spectral_radius\<close> raises AttributeError, whatever the members of
  a cell would do. The methods report the name \<open>esn_cell\<close>; a property reports its own name,
  since Python retries a property whose getter raised AttributeError through
  \<open>__getattr__\<close>.
\<close>

theorem esn_cell_members_raise:
  "getattr self ''esn_cell'' = Inl (AttributeError ''esn_cell'') \<and>
   hidden attr_of self = Inl (AttributeError ''hidden'') \<and>
   w_property attr_of self = Inl (AttributeError ''w'') \<and>
   w_in_property attr_of self = Inl (AttributeError ''w_in'') \<and>
   set_w set_attr self wv = Inl (AttributeError ''esn_cell'') \<and>
   reset_hidden call_reset self = Inl (AttributeError ''esn_cell'') \<and>
   get_spectral_radius call_radius self = Inl (AttributeError ''esn_cell'')"
  by (simp add: getattr_esn_cell hidden_def w_property_def w_in_property_def set_w_def
      reset_hidden_def get_spectral_radius_def property_get_def module_getattr_def)

text \<open>
  C1. In every state of the stack and for every input, \<open>forward\<close> raises AttributeError at
  its first test, the read of \<open>self.feedbacks\<close>, which the constructor never assigns. No
  branch is selected, no cell is called and nothing reaches the readout, whatever the
  cells and the readout would compute. So it is on the stack built by
  \<open>StackedESN(3, [5, 4], 2)\<close> for an input sequence of 50 rows of width 3.
\<close>

theorem forward_raises:
  "forward call_cell call_output self u y = Inl (AttributeError ''feedbacks'') \<and>
   (\<exists>stack. init example_args = Inr stack \<and>
      forward call_cell call_output stack (Tensor [50, 3] us) None =
        Inl (AttributeError ''feedbacks''))"
  using init_example by (simp add: forward_def getattr_feedbacks)

subsection \<open>When the constructor raises\<close>

lemma scalar_covers_Suc: "(\<exists>v. layer_scalar p n = Inr v) \<longleftrightarrow> scalar_covers p (Suc n)"
  by (cases p) (auto simp: layer_scalar_def scalar_covers_def list_index_def)

lemma tensor_index_Inr_iff: "(\<exists>v. tensor_index t n = Inr v) \<longleftrightarrow> Suc n \<le> leading_dim t"
  by (cases "shape t") (auto simp: tensor_index_def leading_dim_def)

lemma matrix_covers_Suc: "(\<exists>v. layer_matrix k p n = Inr v) \<longleftrightarrow> matrix_covers k p (Suc n)"
proof (cases p)
  case (PyTensor t)
  show ?thesis
  proof (cases "ndim t = k")
    case True
    have "(\<exists>v. bind_err (tensor_index t n) (\<lambda>s. Inr (Some s)) = Inr v) \<longleftrightarrow>
        (\<exists>s. tensor_index t n = Inr s)"
      by (cases "tensor_index t n") simp_all
    with True PyTensor show ?thesis
      by (simp add: layer_matrix_def matrix_covers_def tensor_index_Inr_iff)
  next
    case False
    with PyTensor show ?thesis by (simp add: layer_matrix_def matrix_covers_def)
  qed
qed (simp_all add: layer_matrix_def matrix_covers_def)

lemma le_iff_all_Suc: "k \<le> d \<longleftrightarrow> (\<forall>n<k. Suc n \<le> d)" for d :: nat
proof
  assume "k \<le> d"
  then show "\<forall>n<k. Suc n \<le> d" by auto
next
  assume a: "\<forall>n<k. Suc n \<le> d"
  show "k \<le> d"
  proof (cases k)
    case 0
    then show ?thesis by simp
  next
    case (Suc j)
    with a have "Suc j \<le> d" by simp
    with Suc show ?thesis by simp
  qed
qed

lemma scalar_covers_all: "scalar_covers p k \<longleftrightarrow> (\<forall>n<k. scalar_covers p (Suc n))"
proof (cases p)
  case (Single v)
  then show ?thesis by (simp add: scalar_covers_def)
next
  case (PyList xs)
  then show ?thesis
    using le_iff_all_Suc [of k "length xs"] by (simp add: scalar_covers_def)
qed

lemma matrix_covers_all: "matrix_covers j p k \<longleftrightarrow> (\<forall>n<k. matrix_covers j p (Suc n))"
proof (cases p)
  case (PyTensor t)
  then show ?thesis
    using le_iff_all_Suc [of k "leading_dim t"] by (simp add: matrix_covers_def)
qed (simp_all add: matrix_covers_def)

lemma bind_err_InlE:
  assumes "bind_err r f = Inl e"
  obtains "r = Inl e" | x where "r = Inr x" and "f x = Inl e"
  using assms by (cases r) simp_all

lemma list_index_Inl: "list_index xs n = Inl e \<Longrightarrow> e = IndexError"
  by (simp add: list_index_def split: if_splits)

lemma layer_input_dim_Inl: "layer_input_dim a n = Inl e \<Longrightarrow> e = IndexError"
  by (simp add: layer_input_dim_def list_index_def split: if_splits)

lemma layer_scalar_Inl: "layer_scalar p n = Inl e \<Longrightarrow> e = IndexError"
  by (cases p) (simp_all add: layer_scalar_def list_index_Inl)

lemma tensor_index_Inl: "tensor_index t n = Inl e \<Longrightarrow> e = IndexError"
  by (cases "shape t") (simp_all add: tensor_index_def split: if_splits)

lemma layer_matrix_Inl: "layer_matrix k p n = Inl e \<Longrightarrow> e = IndexError"
proof (cases p)
  case (PyTensor t)
  assume "layer_matrix k p n = Inl e"
  with PyTensor have "ndim t = k" and "bind_err (tensor_index t n) (\<lambda>s. Inr (Some s)) = Inl e"
    by (simp_all add: layer_matrix_def split: if_splits)
  then show ?thesis by (cases "tensor_index t n") (simp_all add: tensor_index_Inl)
qed (simp_all add: layer_matrix_def)

lemma layer_cell_Inl:
  assumes "layer_cell a n = Inl e"
  shows "e = IndexError"
  using assms unfolding layer_cell_def
  by (elim bind_err_InlE)
    (simp_all add: layer_input_dim_Inl layer_scalar_Inl layer_matrix_Inl list_index_Inl)


lemma layer_cell_ok:
  assumes "n < length (hidden_dim a)"
    and "scalar_covers (spectral_radius a) (Suc n)"
    and "scalar_covers (bias_scaling a) (Suc n)"
    and "scalar_covers (input_scaling a) (Suc n)"
    and "matrix_covers 3 (w a) (Suc n)"
    and "matrix_covers 3 (w_in a) (Suc n)"
    and "matrix_covers 2 (w_bias a) (Suc n)"
  shows "\<exists>c. layer_cell a n = Inr c"
proof -
  have "\<exists>v. layer_input_dim a n = Inr v"
    using assms(1) by (simp add: layer_input_dim_Inr)
  then obtain lid where r1: "layer_input_dim a n = Inr lid" ..
  have "\<exists>v. layer_scalar (spectral_radius a) n = Inr v"
    using assms(2) by (simp only: scalar_covers_Suc)
  then obtain v1 where r2: "layer_scalar (spectral_radius a) n = Inr v1" ..
  have "\<exists>v. layer_scalar (bias_scaling a) n = Inr v"
    using assms(3) by (simp only: scalar_covers_Suc)
  then obtain v2 where r3: "layer_scalar (bias_scaling a) n = Inr v2" ..
  have "\<exists>v. layer_scalar (input_scaling a) n = Inr v"
    using assms(4) by (simp only: scalar_covers_Suc)
  then obtain v3 where r4: "layer_scalar (input_scaling a) n = Inr v3" ..
  have "\<exists>v. layer_matrix 3 (w a) n = Inr v"
    using assms(5) by (simp only: matrix_covers_Suc)
  then obtain m1 where r5: "layer_matrix 3 (w a) n = Inr m1" ..
  have "\<exists>v. layer_matrix 3 (w_in a) n = Inr v"
    using assms(6) by (simp only: matrix_covers_Suc)
  then obtain m2 where r6: "layer_matrix 3 (w_in a) n = Inr m2" ..
  have "\<exists>v. layer_matrix 2 (w_bias a) n = Inr v"
    using assms(7) by (simp only: matrix_covers_Suc)
  then obtain m3 where r7: "layer_matrix 2 (w_bias a) n = Inr m3" ..
  have r8: "list_index (hidden_dim a) n = Inr (hidden_dim a ! n)"
    using assms(1) by (simp add: list_index_def)
  show ?thesis
    unfolding layer_cell_def
    by (simp only: r1 r2 r3 r4 r5 r6 r7 r8 bind_err_Inr) blast
qed

lemma scalar_covers_SucI: "scalar_covers p k \<Longrightarrow> n < k \<Longrightarrow> scalar_covers p (Suc n)"
  by (cases p) (simp_all add: scalar_covers_def)

lemma matrix_covers_SucI: "matrix_covers j p k \<Longrightarrow> n < k \<Longrightarrow> matrix_covers j p (Suc n)"
  by (cases p) (auto simp: matrix_covers_def split: if_splits)

lemma init_succeeds:
  assumes "lengths_cover a"
  shows "\<exists>self. init a = Inr self"
proof -
  from assms have cov:
    "scalar_covers (spectral_radius a) (length (hidden_dim a))"
    "scalar_covers (bias_scaling a) (length (hidden_dim a))"
    "scalar_covers (input_scaling a) (length (hidden_dim a))"
    "matrix_covers 3 (w a) (length (hidden_dim a))"
    "matrix_covers 3 (w_in a) (length (hidden_dim a))"
    "matrix_covers 2 (w_bias a) (length (hidden_dim a))"
    by (simp_all add: lengths_cover_def)
  have ex: "\<exists>c. layer_cell a n = Inr c" if n: "n < length (hidden_dim a)" for n
    by (rule layer_cell_ok [OF n scalar_covers_SucI [OF cov(1) n]
          scalar_covers_SucI [OF cov(2) n] scalar_covers_SucI [OF cov(3) n]
          matrix_covers_SucI [OF cov(4) n] matrix_covers_SucI [OF cov(5) n]
          matrix_covers_SucI [OF cov(6) n]])
  have "map (layer_cell a) [0..<length (hidden_dim a)] =
      map (Inr \<circ> (\<lambda>n. projr (layer_cell a n))) [0..<length (hidden_dim a)]"
  proof (rule map_cong [OF refl])
    fix n assume "n \<in> set [0..<length (hidden_dim a)]"
    then have "n < length (hidden_dim a)" by simp
    from ex [OF this] obtain c where c: "layer_cell a n = Inr c" ..
    show "layer_cell a n = (Inr \<circ> (\<lambda>n. projr (layer_cell a n))) n"
      unfolding o_apply by (subst (2) c) (simp add: c)
  qed
  then have "map (layer_cell a) [0..<length (hidden_dim a)] =
      map Inr (map (\<lambda>n. projr (layer_cell a n)) [0..<length (hidden_dim a)])"
    by (simp only: map_map)
  from layers_loop_ok [OF this] show ?thesis
    by (simp add: init_def)
qed

lemma init_Inl:
  assumes "init a = Inl e"
  shows "e = IndexError"
proof -
  from assms have "layers_loop a [0..<length (hidden_dim a)] (0, []) = Inl e"
    by (cases "layers_loop a [0..<length (hidden_dim a)] (0, [])") (simp_all add: init_def)
  from layers_loop_Inl [OF this] show ?thesis
    using layer_cell_Inl by blast
qed

lemma init_Inr_covers:
  assumes "init a = Inr self"
  shows "lengths_cover a"
proof -
  have c: "layer_cell a n = Inr (esn_layers self ! n)" if "n < length (hidden_dim a)" for n
    using init_cells(2) [OF assms that] .
  have s1: "scalar_covers (spectral_radius a) (Suc n)" if "n < length (hidden_dim a)" for n
    using layer_cell_fields(3) [OF c [OF that]] by (simp add: scalar_covers_Suc [symmetric])
  have s2: "scalar_covers (bias_scaling a) (Suc n)" if "n < length (hidden_dim a)" for n
    using layer_cell_fields(4) [OF c [OF that]] by (simp add: scalar_covers_Suc [symmetric])
  have s3: "scalar_covers (input_scaling a) (Suc n)" if "n < length (hidden_dim a)" for n
    using layer_cell_fields(5) [OF c [OF that]] by (simp add: scalar_covers_Suc [symmetric])
  have m1: "matrix_covers 3 (w a) (Suc n)" if "n < length (hidden_dim a)" for n
    using layer_cell_fields(6) [OF c [OF that]] by (simp add: matrix_covers_Suc [symmetric])
  have m2: "matrix_covers 3 (w_in a) (Suc n)" if "n < length (hidden_dim a)" for n
    using layer_cell_fields(7) [OF c [OF that]] by (simp add: matrix_covers_Suc [symmetric])
  have m3: "matrix_covers 2 (w_bias a) (Suc n)" if "n < length (hidden_dim a)" for n
    using layer_cell_fields(8) [OF c [OF that]] by (simp add: matrix_covers_Suc [symmetric])
  have "scalar_covers (spectral_radius a) (length (hidden_dim a))"
    by (subst scalar_covers_all) (simp add: s1)
  moreover have "scalar_covers (bias_scaling a) (length (hidden_dim a))"
    by (subst scalar_covers_all) (simp add: s2)
  moreover have "scalar_covers (input_scaling a) (length (hidden_dim a))"
    by (subst scalar_covers_all) (simp add: s3)
  moreover have "matrix_covers 3 (w a) (length (hidden_dim a))"
    by (subst matrix_covers_all) (simp add: m1)
  moreover have "matrix_covers 3 (w_in a) (length (hidden_dim a))"
    by (subst matrix_covers_all) (simp add: m2)
  moreover have "matrix_covers 2 (w_bias a) (length (hidden_dim a))"
    by (subst matrix_covers_all) (simp add: m3)
  ultimately show ?thesis by (simp add: lengths_cover_def)
qed

lemma init_raises:
  assumes "\<not> lengths_cover a"
  shows "init a = Inl IndexError"
proof (cases "init a")
  case (Inl e)
  then show ?thesis using init_Inl by blast
next
  case (Inr self)
  then show ?thesis using init_Inr_covers assms by blast
qed


lemma init_long_list: "init long_list_args = Inr long_list_stack"
  by (simp add: long_list_args_def long_list_stack_def init_eval_defs)

lemma init_no_layer: "init no_layer_args = Inr no_layer_stack"
  by (simp add: no_layer_args_def no_layer_stack_def init_eval_defs)

lemma init_empty:
  assumes "hidden_dim a = []"
  shows "init a =
           Inr \<lparr>training = True, n_layers = 0, esn_layers = [], n_features = 0,
                output_layer = RRCell 0 (output_dim a) (ridge_param a) (feedbacks a)
                                 (with_bias a) (learning_algo a)\<rparr>"
  using assms by (simp add: init_def)

text \<open>
  C4, as the code has it. The constructor validates nothing. It raises IndexError exactly
  when a per-layer list (\<open>spectral_radius\<close>, \<open>bias_scaling\<close>, \<open>input_scaling\<close>) or a stacked
  tensor (\<open>w\<close>, \<open>w_in\<close>, \<open>w_bias\<close>) has fewer entries than there are layers, and succeeds
  otherwise. A list with more entries than layers is accepted and its first
  \<open>len(hidden_dim)\<close> entries reach the cells. An empty \<open>hidden_dim\<close> is accepted and gives a
  stack with no cell, \<open>n_features = 0\<close> and a readout of input width 0.
\<close>

theorem init_raises_only_on_short_lists:
  "(\<not> lengths_cover a \<longrightarrow> init a = Inl IndexError) \<and>
   (lengths_cover a \<longrightarrow> (\<exists>self. init a = Inr self)) \<and>
   (init a = Inr self \<longrightarrow> spectral_radius a = PyList xs \<longrightarrow>
      map cell_spectral_radius (esn_layers self) = take (length (hidden_dim a)) xs) \<and>
   (init a = Inr self \<longrightarrow> bias_scaling a = PyList ys \<longrightarrow>
      map cell_bias_scaling (esn_layers self) = take (length (hidden_dim a)) ys) \<and>
   (init a = Inr self \<longrightarrow> input_scaling a = PyList zs \<longrightarrow>
      map cell_input_scaling (esn_layers self) = take (length (hidden_dim a)) zs) \<and>
   (hidden_dim a = [] \<longrightarrow>
      init a =
        Inr \<lparr>training = True, n_layers = 0, esn_layers = [], n_features = 0,
             output_layer = RRCell 0 (output_dim a) (ridge_param a) (feedbacks a)
                              (with_bias a) (learning_algo a)\<rparr>)"
  using init_raises [of a] init_succeeds [of a] init_scalars(1) [of a self xs]
    init_scalars(2) [of a self ys] init_scalars(3) [of a self zs] init_empty [of a]
  by blast

theorem init_raises_only_on_short_lists_witness:
  "\<not> lengths_cover short_list_args \<and> init short_list_args = Inl IndexError \<and>
   lengths_cover long_list_args \<and> init long_list_args = Inr long_list_stack \<and>
   spectral_radius long_list_args = PyList [0.9, 0.8, 0.7] \<and>
   map cell_spectral_radius (esn_layers long_list_stack) = [0.9, 0.8] \<and>
   init per_layer_args = Inr per_layer_stack \<and>
   bias_scaling per_layer_args = PyList [0.1, 0.2, 0.3] \<and>
   map cell_bias_scaling (esn_layers per_layer_stack) = [0.1, 0.2, 0.3] \<and>
   input_scaling per_layer_args = PyList [1, 0.5, 0.25] \<and>
   map cell_input_scaling (esn_layers per_layer_stack) = [1, 0.5, 0.25] \<and>
   hidden_dim no_layer_args = [] \<and> init no_layer_args = Inr no_layer_stack"
proof -
  have short: "\<not> lengths_cover short_list_args"
    by (simp add: short_list_args_def default_args_def lengths_cover_def scalar_covers_def)
  have long: "lengths_cover long_list_args"
    "spectral_radius long_list_args = PyList [0.9, 0.8, 0.7]"
    "length (hidden_dim long_list_args) = 2"
    by (simp_all add: long_list_args_def default_args_def lengths_cover_def scalar_covers_def
        matrix_covers_def)
  have per: "bias_scaling per_layer_args = PyList [0.1, 0.2, 0.3]"
    "input_scaling per_layer_args = PyList [1, 0.5, 0.25]"
    "length (hidden_dim per_layer_args) = 3"
    by (simp_all add: per_layer_args_def default_args_def)
  have none: "hidden_dim no_layer_args = []"
    by (simp add: no_layer_args_def default_args_def)
  from init_raises_only_on_short_lists [where a = short_list_args] short
  have r1: "init short_list_args = Inl IndexError" by blast
  from init_raises_only_on_short_lists [where a = long_list_args and self = long_list_stack
      and xs = "[0.9, 0.8, 0.7]"] long init_long_list
  have r2: "map cell_spectral_radius (esn_layers long_list_stack) = [0.9, 0.8]"
    by (simp add: numeral_2_eq_2)
  from init_raises_only_on_short_lists [where a = per_layer_args and self = per_layer_stack
      and ys = "[0.1, 0.2, 0.3]" and zs = "[1, 0.5, 0.25]"] per init_per_layer
  have r3: "map cell_bias_scaling (esn_layers per_layer_stack) = [0.1, 0.2, 0.3]"
    "map cell_input_scaling (esn_layers per_layer_stack) = [1, 0.5, 0.25]"
    by simp_all
  from init_raises_only_on_short_lists [where a = no_layer_args] none
  have r4: "init no_layer_args = Inr no_layer_stack"
    by (simp add: no_layer_stack_def no_layer_args_def default_args_def)
  from short long per none r1 r2 r3 r4 init_long_list init_per_layer show ?thesis
    by simp
qed

text \<open>
  C4 as stated fails. With \<open>hidden_dim=[10, 20]\<close> and the three-entry list
  \<open>spectral_radius=[0.9, 0.8, 0.7]\<close> the constructor raises nothing: it builds two cells
  from the first two entries and ignores the third. With \<open>hidden_dim=[]\<close> it raises nothing
  either and builds a stack without cells.
\<close>

theorem config_validation_counterexample:
  "init ((default_args ''tanh'' 3 [10, 20] 2)\<lparr>spectral_radius := PyList [0.9, 0.8, 0.7]\<rparr>) =
     Inr \<lparr>training = True, n_layers = 2,
          esn_layers =
            [ESNCell 3 10 0.9 0 1 None None None None None [1, -1] None ''tanh'' False 2 None
               False,
             ESNCell 10 20 0.8 0 1 None None None None None [1, -1] None ''tanh'' False 2 None
               False],
          n_features = 13, output_layer = RRCell 13 2 0 False True ''inv''\<rparr> \<and>
   init (default_args ''tanh'' 3 [] 2) =
     Inr \<lparr>training = True, n_layers = 0, esn_layers = [], n_features = 0,
          output_layer = RRCell 0 2 0 False True ''inv''\<rparr>"
  by (simp add: init_eval_defs)


subsection \<open>Matrix hyperparameters\<close>

lemma layer_matrix_stacked:
  assumes "layer_matrix k (PyTensor t) n = Inr v" and "ndim t = k"
  shows "v = Some (tensor_slice t n)" and "n < leading_dim t"
proof -
  from assms have b: "bind_err (tensor_index t n) (\<lambda>s. Inr (Some s)) = Inr v"
    by (simp add: layer_matrix_def)
  then obtain s where s: "tensor_index t n = Inr s" and v: "v = Some s"
    by (auto simp: bind_err_Inr_iff)
  from s show "n < leading_dim t"
    using tensor_index_Inr_iff [of t n] by auto
  from s have "s = tensor_slice t n"
    by (cases "shape t") (simp_all add: tensor_index_def split: if_splits)
  with v show "v = Some (tensor_slice t n)" by simp
qed

lemma layer_matrix_whole:
  "layer_matrix k (PyTensor t) n = Inr v \<Longrightarrow> ndim t \<noteq> k \<Longrightarrow> v = Some t"
  by (simp add: layer_matrix_def)

lemma layer_matrix_none: "layer_matrix k PyNone n = Inr v \<Longrightarrow> v = None"
  by (simp add: layer_matrix_def)

lemma layer_matrix_cases:
  assumes "layer_matrix k p n = Inr v"
  shows "(p = PyTensor t \<longrightarrow> ndim t = k \<longrightarrow> v = Some (tensor_slice t n) \<and> n < leading_dim t) \<and>
         (p = PyTensor t \<longrightarrow> ndim t \<noteq> k \<longrightarrow> v = Some t) \<and>
         (p = PyNone \<longrightarrow> v = None)"
  using assms layer_matrix_stacked [of k t n v] layer_matrix_whole [of k t n v]
    layer_matrix_none [of k n v]
  by blast

text \<open>
  C5, as the code has it. The code tells a stack from a single value by the rank of the
  tensor, never by its leading dimension: a tensor is stacked when it is three-dimensional
  for \<open>w\<close> and \<open>w_in\<close>, two-dimensional for \<open>w_bias\<close>. In a successful construction and
  for every layer \<open>i\<close>: a stacked tensor gives the cell its slice at index \<open>i\<close>, and its
  leading dimension is then at least the number of layers; a tensor of any other rank is
  given whole to every cell; and None gives None to every cell.
\<close>

theorem matrix_param_resolution:
  assumes "init a = Inr self" and "i < length (hidden_dim a)"
  shows "(w a = PyTensor t \<longrightarrow> ndim t = 3 \<longrightarrow>
            cell_w (esn_layers self ! i) = Some (tensor_slice t i) \<and>
            length (hidden_dim a) \<le> leading_dim t) \<and>
         (w a = PyTensor t \<longrightarrow> ndim t \<noteq> 3 \<longrightarrow> cell_w (esn_layers self ! i) = Some t) \<and>
         (w a = PyNone \<longrightarrow> cell_w (esn_layers self ! i) = None) \<and>
         (w_in a = PyTensor t_in \<longrightarrow> ndim t_in = 3 \<longrightarrow>
            cell_w_in (esn_layers self ! i) = Some (tensor_slice t_in i) \<and>
            length (hidden_dim a) \<le> leading_dim t_in) \<and>
         (w_in a = PyTensor t_in \<longrightarrow> ndim t_in \<noteq> 3 \<longrightarrow>
            cell_w_in (esn_layers self ! i) = Some t_in) \<and>
         (w_in a = PyNone \<longrightarrow> cell_w_in (esn_layers self ! i) = None) \<and>
         (w_bias a = PyTensor t_bias \<longrightarrow> ndim t_bias = 2 \<longrightarrow>
            cell_w_bias (esn_layers self ! i) = Some (tensor_slice t_bias i) \<and>
            length (hidden_dim a) \<le> leading_dim t_bias) \<and>
         (w_bias a = PyTensor t_bias \<longrightarrow> ndim t_bias \<noteq> 2 \<longrightarrow>
            cell_w_bias (esn_layers self ! i) = Some t_bias) \<and>
         (w_bias a = PyNone \<longrightarrow> cell_w_bias (esn_layers self ! i) = None)"
proof -
  have c: "layer_cell a i = Inr (esn_layers self ! i)"
    using assms by (rule init_cells(2))
  have cov: "lengths_cover a"
    using assms(1) by (rule init_Inr_covers)
  have lw: "w a = PyTensor t \<longrightarrow> ndim t = 3 \<longrightarrow> length (hidden_dim a) \<le> leading_dim t"
    using cov by (auto simp: lengths_cover_def matrix_covers_def)
  have lw_in: "w_in a = PyTensor t_in \<longrightarrow> ndim t_in = 3 \<longrightarrow>
      length (hidden_dim a) \<le> leading_dim t_in"
    using cov by (auto simp: lengths_cover_def matrix_covers_def)
  have lw_bias: "w_bias a = PyTensor t_bias \<longrightarrow> ndim t_bias = 2 \<longrightarrow>
      length (hidden_dim a) \<le> leading_dim t_bias"
    using cov by (auto simp: lengths_cover_def matrix_covers_def)
  note m1 = layer_matrix_cases [OF layer_cell_fields(6) [OF c], of t]
  note m2 = layer_matrix_cases [OF layer_cell_fields(7) [OF c], of t_in]
  note m3 = layer_matrix_cases [OF layer_cell_fields(8) [OF c], of t_bias]
  from m1 lw have "(w a = PyTensor t \<longrightarrow> ndim t = 3 \<longrightarrow>
            cell_w (esn_layers self ! i) = Some (tensor_slice t i) \<and>
            length (hidden_dim a) \<le> leading_dim t) \<and>
         (w a = PyTensor t \<longrightarrow> ndim t \<noteq> 3 \<longrightarrow> cell_w (esn_layers self ! i) = Some t) \<and>
         (w a = PyNone \<longrightarrow> cell_w (esn_layers self ! i) = None)"
    by blast
  moreover from m2 lw_in have "(w_in a = PyTensor t_in \<longrightarrow> ndim t_in = 3 \<longrightarrow>
            cell_w_in (esn_layers self ! i) = Some (tensor_slice t_in i) \<and>
            length (hidden_dim a) \<le> leading_dim t_in) \<and>
         (w_in a = PyTensor t_in \<longrightarrow> ndim t_in \<noteq> 3 \<longrightarrow>
            cell_w_in (esn_layers self ! i) = Some t_in) \<and>
         (w_in a = PyNone \<longrightarrow> cell_w_in (esn_layers self ! i) = None)"
    by blast
  moreover from m3 lw_bias have "(w_bias a = PyTensor t_bias \<longrightarrow> ndim t_bias = 2 \<longrightarrow>
            cell_w_bias (esn_layers self ! i) = Some (tensor_slice t_bias i) \<and>
            length (hidden_dim a) \<le> leading_dim t_bias) \<and>
         (w_bias a = PyTensor t_bias \<longrightarrow> ndim t_bias \<noteq> 2 \<longrightarrow>
            cell_w_bias (esn_layers self ! i) = Some t_bias) \<and>
         (w_bias a = PyNone \<longrightarrow> cell_w_bias (esn_layers self ! i) = None)"
    by blast
  ultimately show ?thesis by simp
qed


lemma example_slices:
  "tensor_slice w_stacked 0 = Tensor [3, 3] [1, 2, 3, 4, 5, 6, 7, 8, 9]"
  "tensor_slice w_stacked 1 = Tensor [3, 3] [10, 11, 12, 13, 14, 15, 16, 17, 18]"
  "tensor_slice bias_stacked 0 = Tensor [3] [1, 2, 3]"
  "tensor_slice bias_stacked 1 = Tensor [3] [4, 5, 6]"
  by (simp_all add: tensor_slice_def w_stacked_def bias_stacked_def)

lemma example_ranks:
  "ndim w_stacked = 3" "ndim w_single = 2" "ndim bias_stacked = 2" "ndim bias_single = 1"
  "leading_dim w_stacked = 2" "leading_dim w_single = 3" "leading_dim bias_stacked = 2"
  "leading_dim bias_single = 3"
  by (simp_all add: ndim_def leading_dim_def w_stacked_def w_single_def bias_stacked_def
      bias_single_def)

lemma matrix_args_fields:
  "hidden_dim matrix_args1 = [3, 3]" "w matrix_args1 = PyTensor w_stacked"
  "w_in matrix_args1 = PyTensor w_single" "w_bias matrix_args1 = PyNone"
  "hidden_dim matrix_args2 = [3, 3]" "w matrix_args2 = PyTensor w_single"
  "w_in matrix_args2 = PyNone" "w_bias matrix_args2 = PyTensor bias_stacked"
  "hidden_dim matrix_args3 = [3, 3]" "w matrix_args3 = PyNone"
  "w_in matrix_args3 = PyTensor w_stacked" "w_bias matrix_args3 = PyTensor bias_single"
  by (simp_all add: matrix_args1_def matrix_args2_def matrix_args3_def default_args_def)

lemma matrix_args_cover:
  "lengths_cover matrix_args1" "lengths_cover matrix_args2" "lengths_cover matrix_args3"
  by (simp_all add: lengths_cover_def scalar_covers_def matrix_covers_def matrix_args_fields
      example_ranks matrix_args1_def matrix_args2_def matrix_args3_def default_args_def)

theorem matrix_param_resolution_witness:
  "(\<exists>self. init matrix_args1 = Inr self \<and>
      cell_w (esn_layers self ! 0) = Some (Tensor [3, 3] [1, 2, 3, 4, 5, 6, 7, 8, 9]) \<and>
      cell_w (esn_layers self ! 1) = Some (Tensor [3, 3] [10, 11, 12, 13, 14, 15, 16, 17, 18]) \<and>
      cell_w_in (esn_layers self ! 0) = Some w_single \<and>
      cell_w_in (esn_layers self ! 1) = Some w_single \<and>
      cell_w_bias (esn_layers self ! 0) = None \<and>
      cell_w_bias (esn_layers self ! 1) = None) \<and>
   (\<exists>self. init matrix_args2 = Inr self \<and>
      cell_w (esn_layers self ! 0) = Some w_single \<and>
      cell_w (esn_layers self ! 1) = Some w_single \<and>
      cell_w_in (esn_layers self ! 0) = None \<and>
      cell_w_in (esn_layers self ! 1) = None \<and>
      cell_w_bias (esn_layers self ! 0) = Some (Tensor [3] [1, 2, 3]) \<and>
      cell_w_bias (esn_layers self ! 1) = Some (Tensor [3] [4, 5, 6])) \<and>
   (\<exists>self. init matrix_args3 = Inr self \<and>
      cell_w (esn_layers self ! 0) = None \<and>
      cell_w (esn_layers self ! 1) = None \<and>
      cell_w_in (esn_layers self ! 0) = Some (Tensor [3, 3] [1, 2, 3, 4, 5, 6, 7, 8, 9]) \<and>
      cell_w_in (esn_layers self ! 1) =
        Some (Tensor [3, 3] [10, 11, 12, 13, 14, 15, 16, 17, 18]) \<and>
      cell_w_bias (esn_layers self ! 0) = Some bias_single \<and>
      cell_w_bias (esn_layers self ! 1) = Some bias_single)"
proof -
  have i0: "0 < length (hidden_dim a)" and i1: "1 < length (hidden_dim a)"
    if "hidden_dim a = [3, 3]" for a :: "string init_args"
    using that by simp_all
  from init_succeeds [OF matrix_args_cover(1)] obtain s1 where s1: "init matrix_args1 = Inr s1" ..
  from init_succeeds [OF matrix_args_cover(2)] obtain s2 where s2: "init matrix_args2 = Inr s2" ..
  from init_succeeds [OF matrix_args_cover(3)] obtain s3 where s3: "init matrix_args3 = Inr s3" ..
  note f = matrix_args_fields example_ranks example_slices
  have a10: "cell_w (esn_layers s1 ! 0) = Some (Tensor [3, 3] [1, 2, 3, 4, 5, 6, 7, 8, 9]) \<and>
      cell_w_in (esn_layers s1 ! 0) = Some w_single \<and> cell_w_bias (esn_layers s1 ! 0) = None"
    using matrix_param_resolution [OF s1 i0 [OF f(1)], of w_stacked w_single] f by simp
  have a11: "cell_w (esn_layers s1 ! 1) =
        Some (Tensor [3, 3] [10, 11, 12, 13, 14, 15, 16, 17, 18]) \<and>
      cell_w_in (esn_layers s1 ! 1) = Some w_single \<and> cell_w_bias (esn_layers s1 ! 1) = None"
    using matrix_param_resolution [OF s1 i1 [OF f(1)], of w_stacked w_single] f by simp
  have a20: "cell_w (esn_layers s2 ! 0) = Some w_single \<and>
      cell_w_in (esn_layers s2 ! 0) = None \<and>
      cell_w_bias (esn_layers s2 ! 0) = Some (Tensor [3] [1, 2, 3])"
    using matrix_param_resolution [OF s2 i0 [OF f(5)], of w_single _ bias_stacked] f by simp
  have a21: "cell_w (esn_layers s2 ! 1) = Some w_single \<and>
      cell_w_in (esn_layers s2 ! 1) = None \<and>
      cell_w_bias (esn_layers s2 ! 1) = Some (Tensor [3] [4, 5, 6])"
    using matrix_param_resolution [OF s2 i1 [OF f(5)], of w_single _ bias_stacked] f by simp
  have a30: "cell_w (esn_layers s3 ! 0) = None \<and>
      cell_w_in (esn_layers s3 ! 0) = Some (Tensor [3, 3] [1, 2, 3, 4, 5, 6, 7, 8, 9]) \<and>
      cell_w_bias (esn_layers s3 ! 0) = Some bias_single"
    using matrix_param_resolution [OF s3 i0 [OF f(9)], of _ w_stacked bias_single] f by simp
  have a31: "cell_w (esn_layers s3 ! 1) = None \<and>
      cell_w_in (esn_layers s3 ! 1) =
        Some (Tensor [3, 3] [10, 11, 12, 13, 14, 15, 16, 17, 18]) \<and>
      cell_w_bias (esn_layers s3 ! 1) = Some bias_single"
    using matrix_param_resolution [OF s3 i1 [OF f(9)], of _ w_stacked bias_single] f by simp
  from s1 a10 a11 have "\<exists>self. init matrix_args1 = Inr self \<and>
      cell_w (esn_layers self ! 0) = Some (Tensor [3, 3] [1, 2, 3, 4, 5, 6, 7, 8, 9]) \<and>
      cell_w (esn_layers self ! 1) = Some (Tensor [3, 3] [10, 11, 12, 13, 14, 15, 16, 17, 18]) \<and>
      cell_w_in (esn_layers self ! 0) = Some w_single \<and>
      cell_w_in (esn_layers self ! 1) = Some w_single \<and>
      cell_w_bias (esn_layers self ! 0) = None \<and>
      cell_w_bias (esn_layers self ! 1) = None"
    by blast
  moreover from s2 a20 a21 have "\<exists>self. init matrix_args2 = Inr self \<and>
      cell_w (esn_layers self ! 0) = Some w_single \<and>
      cell_w (esn_layers self ! 1) = Some w_single \<and>
      cell_w_in (esn_layers self ! 0) = None \<and>
      cell_w_in (esn_layers self ! 1) = None \<and>
      cell_w_bias (esn_layers self ! 0) = Some (Tensor [3] [1, 2, 3]) \<and>
      cell_w_bias (esn_layers self ! 1) = Some (Tensor [3] [4, 5, 6])"
    by blast
  moreover from s3 a30 a31 have "\<exists>self. init matrix_args3 = Inr self \<and>
      cell_w (esn_layers self ! 0) = None \<and>
      cell_w (esn_layers self ! 1) = None \<and>
      cell_w_in (esn_layers self ! 0) = Some (Tensor [3, 3] [1, 2, 3, 4, 5, 6, 7, 8, 9]) \<and>
      cell_w_in (esn_layers self ! 1) =
        Some (Tensor [3, 3] [10, 11, 12, 13, 14, 15, 16, 17, 18]) \<and>
      cell_w_bias (esn_layers self ! 0) = Some bias_single \<and>
      cell_w_bias (esn_layers self ! 1) = Some bias_single"
    by blast
  ultimately show ?thesis by blast
qed


text \<open>
  C5 as stated fails for \<open>w_bias\<close>. A single two-dimensional bias matrix whose leading
  dimension differs from the number of layers is not passed unchanged: the code indexes
  every two-dimensional \<open>w_bias\<close> by the layer number. With two layers, the 1x3 matrix
  of the single row 1, 2, 3 makes the constructor raise IndexError at layer 1, and a 3x3
  matrix gives the two cells its rows 0 and 1.
\<close>

theorem matrix_param_counterexample:
  "init ((default_args ''tanh'' 3 [3, 3] 2)\<lparr>w_bias := PyTensor (Tensor [1, 3] [1, 2, 3])\<rparr>) =
     Inl IndexError \<and>
   init ((default_args ''tanh'' 3 [3, 3] 2)
           \<lparr>w_bias := PyTensor (Tensor [3, 3] [1, 2, 3, 4, 5, 6, 7, 8, 9])\<rparr>) =
     Inr \<lparr>training = True, n_layers = 2,
          esn_layers =
            [ESNCell 3 3 0.9 0 1 None None (Some (Tensor [3] [1, 2, 3])) None None [1, -1] None
               ''tanh'' False 2 None False,
             ESNCell 3 3 0.9 0 1 None None (Some (Tensor [3] [4, 5, 6])) None None [1, -1] None
               ''tanh'' False 2 None False],
          n_features = 6, output_layer = RRCell 6 2 0 False True ''inv''\<rparr>"
  by (simp add: init_eval_defs ndim_def tensor_index_def tensor_slice_def)


end
